theory Spec2Isabelle
  imports Complex_Main
begin

section \<open>Shared Python notions\<close>

text \<open>
  The exceptions that \<^verbatim>\<open>kopf/config.py\<close> raises or catches. A lookup that can
  raise returns \<open>py_error + 'a\<close>, with \<open>Inl\<close> carrying the exception. A procedure
  that mutates the process returns \<open>py_error option \<times> state\<close>: the exception that left
  it, if any, and the state as the procedure left it, so that whatever was written before
  a \<open>raise\<close> stays written.
\<close>

datatype py_error = ValueError string | LookupError | ImportError

text \<open>
  The flags of \<open>configure\<close> are \<open>Optional[bool]\<close>. Python tests them with
  \<open>if\<close>, \<open>or\<close>, \<open>not\<close> and \<open>bool(...)\<close>, all of which read the
  truth value of the object: \<open>None\<close> and \<open>False\<close> are falsy, \<open>True\<close> is truthy.
\<close>

definition truthy :: "bool option \<Rightarrow> bool" where
  "truthy v = (case v of None \<Rightarrow> False | Some b \<Rightarrow> b)"

text \<open>
  Python floats appear in this module only as literals that are stored and never
  computed with; a literal is represented by the number it is written as.
\<close>

type_synonym pyfloat = real

section \<open>The configuration holders\<close>

text \<open>The severities of the \<open>logging\<close> module, with their numeric values.\<close>

datatype loglevel = NOTSET | DEBUG | INFO | WARNING | ERROR | CRITICAL

fun level_value :: "loglevel \<Rightarrow> int" where
  "level_value NOTSET = 0"
| "level_value DEBUG = 10"
| "level_value INFO = 20"
| "level_value WARNING = 30"
| "level_value ERROR = 40"
| "level_value CRITICAL = 50"

definition LOGLEVEL_INFO :: int where "LOGLEVEL_INFO = level_value INFO"
definition LOGLEVEL_WARNING :: int where "LOGLEVEL_WARNING = level_value WARNING"
definition LOGLEVEL_ERROR :: int where "LOGLEVEL_ERROR = level_value ERROR"
definition LOGLEVEL_CRITICAL :: int where "LOGLEVEL_CRITICAL = level_value CRITICAL"

text \<open>
  Each class is a bag of class attributes: a record of the attributes, and the value the
  class body gives them when the module is loaded.
\<close>

record EventsConfig =
  events_loglevel :: int

definition EventsConfig_class :: EventsConfig where
  "EventsConfig_class = \<lparr>events_loglevel = level_value INFO\<rparr>"

record WorkersConfig =
  queue_workers_limit :: "int option"
  synchronous_tasks_threadpool_limit :: "int option"
  worker_idle_timeout :: pyfloat
  worker_batch_window :: pyfloat
  worker_exit_timeout :: pyfloat

definition WorkersConfig_class :: WorkersConfig where
  "WorkersConfig_class =
     \<lparr>queue_workers_limit = None,
      synchronous_tasks_threadpool_limit = None,
      worker_idle_timeout = 5.0,
      worker_batch_window = 0.1,
      worker_exit_timeout = 2.0\<rparr>"

record WatchersConfig =
  default_stream_timeout :: "pyfloat option"
  watcher_retry_delay :: pyfloat
  session_timeout :: "pyfloat option"

definition WatchersConfig_class :: WatchersConfig where
  "WatchersConfig_class =
     \<lparr>default_stream_timeout = None,
      watcher_retry_delay = 0.1,
      session_timeout = None\<rparr>"

section \<open>The thread-pool limit and the settings of the running operator\<close>

text \<open>
  Modelled from the spec: the type \<open>configuration.OperatorSettings\<close> of
  \<open>kopf.structs\<close> is declared in another module. The spec describes it as the
  per-run aggregate that mirrors the concurrency fields of \<open>WorkersConfig\<close>; the
  mutator writes its \<open>execution.max_workers\<close>, taken here as a plain field holding
  the limit.
\<close>

record ExecutionSettings =
  max_workers :: "int option"

record OperatorSettings =
  execution :: ExecutionSettings

text \<open>
  The settings object is shared between the run and whoever looks it up, and the
  mutator changes it in place: objects live in a store, and the context variable
  \<open>posting.settings_var\<close> holds the address of the bound object, or nothing when no
  run is active in the calling context. The two modules imported inside the \<open>try\<close>
  belong to the package itself and are taken to import.
\<close>

type_synonym addr = nat

record runtime =
  workers :: WorkersConfig
  store :: "addr \<Rightarrow> OperatorSettings"
  settings_var :: "addr option"

text \<open>\<open>ContextVar.get()\<close> without a default raises \<open>LookupError\<close> when unbound.\<close>

definition settings_var_get :: "runtime \<Rightarrow> py_error + addr" where
  "settings_var_get s =
     (case settings_var s of None \<Rightarrow> Inl LookupError | Some a \<Rightarrow> Inr a)"

text \<open>The assignment \<open>settings.execution.max_workers = v\<close> on the object at an address.\<close>

definition set_max_workers :: "addr \<Rightarrow> int \<Rightarrow> runtime \<Rightarrow> runtime" where
  "set_max_workers a v s =
     s\<lparr>store := (store s)
        (a := (store s a)\<lparr>execution := (execution (store s a))\<lparr>max_workers := Some v\<rparr>\<rparr>)\<rparr>"

definition set_synchronous_tasks_threadpool_limit ::
    "int \<Rightarrow> runtime \<Rightarrow> py_error option \<times> runtime" where
  "set_synchronous_tasks_threadpool_limit new_limit s =
     (if new_limit < 1
      then (Some (ValueError ''Can`t set threadpool limit lower than 1''), s)
      else
        let s1 = s\<lparr>workers := (workers s)\<lparr>synchronous_tasks_threadpool_limit := Some new_limit\<rparr>\<rparr>
        in (case settings_var_get s1 of
              Inl LookupError \<Rightarrow> (None, s1)
            | Inl e \<Rightarrow> (Some e, s1)
            | Inr settings \<Rightarrow> (None, set_max_workers settings new_limit s1)))"

text \<open>
  The attribute is a plain class attribute (no property, no descriptor): an assignment
  \<open>WorkersConfig.synchronous_tasks_threadpool_limit = v\<close> from anywhere else stores
  \<open>v\<close> as it is.
\<close>

definition assign_synchronous_tasks_threadpool_limit :: "int option \<Rightarrow> runtime \<Rightarrow> runtime" where
  "assign_synchronous_tasks_threadpool_limit v s =
     s\<lparr>workers := (workers s)\<lparr>synchronous_tasks_threadpool_limit := v\<rparr>\<rparr>"

text \<open>
  A process in which \<open>WorkersConfig\<close> holds a limit of 4 set earlier and a run is
  active, its settings object at address 0 with no limit of its own yet; and the same
  process outside any run.
\<close>

definition running :: runtime where
  "running =
     \<lparr>workers = WorkersConfig_class\<lparr>synchronous_tasks_threadpool_limit := Some 4\<rparr>,
      store = (\<lambda>_. \<lparr>execution = \<lparr>max_workers = None\<rparr>\<rparr>),
      settings_var = Some 0\<rparr>"

definition loading :: runtime where
  "loading = running\<lparr>settings_var := None\<rparr>"

section \<open>Logging\<close>

text \<open>
  The \<open>logging\<close> module keeps one root logger and a dictionary of named loggers. A
  handler is an object: two handlers built by two calls are two objects even when they
  are configured alike, so each carries the identity it was allocated under.
\<close>

definition format :: string where
  "format = ''[%(asctime)s] %(name)-20.20s [%(levelname)-8.8s] %(message)s''"

text \<open>
  Modelled from the spec: \<open>ObjectPrefixingFormatter\<close> is declared in
  \<open>kopf.engines.logging\<close>. The spec describes it as the formatter that prefixes each
  line with the identity of the object being reconciled; \<open>configure\<close> only constructs
  it from the format string.
\<close>

datatype formatter = ObjectPrefixingFormatter string

datatype handler_class = StreamHandler | NullHandler | ForeignHandler

record handler =
  hid :: nat
  hclass :: handler_class
  hformatter :: "formatter option"

record logger =
  handlers :: "handler list"
  level :: loglevel
  propagate :: bool

text \<open>
  The client library's \<open>kubernetes.client.configuration.Configuration\<close>, reduced to the
  attributes \<open>configure\<close> assigns. The library is optional and is not part of the
  sources; what its own code does on top of storing these attributes is outside this
  development.
\<close>

record kube_configuration =
  logger_format :: string
  logger_file :: "string option"
  kube_debug :: "bool option"

text \<open>
  The part of the process \<open>configure\<close> touches. \<open>kubernetes\<close> is \<open>None\<close>
  when \<open>import kubernetes\<close> raises \<open>ImportError\<close>, and otherwise holds the object the
  constructor \<open>Configuration()\<close> returns; \<open>kubernetes_default\<close> is the default
  installed by \<open>Configuration.set_default\<close>; \<open>loop_debug\<close> is the debug flag of the
  event loop \<open>asyncio.get_event_loop()\<close> returns (\<open>configure\<close> runs at start-up in
  the main thread, where there is one).
\<close>

record process =
  root :: logger
  loggerDict :: "string \<rightharpoonup> logger"
  next_id :: nat
  kubernetes :: "kube_configuration option"
  kubernetes_default :: "kube_configuration option"
  loop_debug :: bool

text \<open>The constructors \<open>logging.StreamHandler()\<close> and \<open>logging.NullHandler()\<close>.\<close>

definition new_handler :: "handler_class \<Rightarrow> process \<Rightarrow> handler \<times> process" where
  "new_handler c s =
     (\<lparr>hid = next_id s, hclass = c, hformatter = None\<rparr>, s\<lparr>next_id := Suc (next_id s)\<rparr>)"

definition setFormatter :: "formatter \<Rightarrow> handler \<Rightarrow> handler" where
  "setFormatter fmt h = h\<lparr>hformatter := Some fmt\<rparr>"

text \<open>\<open>Logger.addHandler\<close> appends the handler unless the logger already has it.\<close>

definition addHandler :: "handler \<Rightarrow> logger \<Rightarrow> logger" where
  "addHandler h l = (if h \<in> set (handlers l) then l else l\<lparr>handlers := handlers l @ [h]\<rparr>)"

definition setLevel :: "loglevel \<Rightarrow> logger \<Rightarrow> logger" where
  "setLevel lv l = l\<lparr>level := lv\<rparr>"

text \<open>
  \<open>logging.getLogger(name)\<close> returns the logger of that name and creates it on first
  use: no handlers, level \<open>NOTSET\<close>, propagating. The caller then mutates the logger
  it got, which \<open>with_logger\<close> expresses as an update of the dictionary entry.
\<close>

definition Logger :: logger where
  "Logger = \<lparr>handlers = [], level = NOTSET, propagate = True\<rparr>"

definition getLogger :: "string \<Rightarrow> process \<Rightarrow> logger" where
  "getLogger name s = (case loggerDict s name of None \<Rightarrow> Logger | Some l \<Rightarrow> l)"

definition with_logger :: "string \<Rightarrow> (logger \<Rightarrow> logger) \<Rightarrow> process \<Rightarrow> process" where
  "with_logger name f s = s\<lparr>loggerDict := (loggerDict s)(name \<mapsto> f (getLogger name s))\<rparr>"

text \<open>
  \<open>import kubernetes\<close>, and the \<open>try\<close> statement around it: on \<open>ImportError\<close>
  nothing is done; any other exception would leave \<open>configure\<close>; otherwise a new
  configuration is built, filled in and installed as the default.
\<close>

definition import_kubernetes :: "process \<Rightarrow> py_error + kube_configuration" where
  "import_kubernetes s = (case kubernetes s of None \<Rightarrow> Inl ImportError | Some c \<Rightarrow> Inr c)"

definition set_default :: "kube_configuration \<Rightarrow> process \<Rightarrow> process" where
  "set_default config s = s\<lparr>kubernetes_default := Some config\<rparr>"

definition configure_kubernetes :: "bool option \<Rightarrow> process \<Rightarrow> py_error option \<times> process" where
  "configure_kubernetes debug s =
     (case import_kubernetes s of
        Inl ImportError \<Rightarrow> (None, s)
      | Inl e \<Rightarrow> (Some e, s)
      | Inr config \<Rightarrow>
          let config = config\<lparr>logger_format := format\<rparr>;
              config = config\<lparr>logger_file := None\<rparr>;
              config = config\<lparr>kube_debug := debug\<rparr>
          in (None, set_default config s))"

text \<open>Lines 45 to 47: outside debug mode, \<open>del logger.handlers[1:]\<close> on \<open>urllib3\<close>.\<close>

definition strip_urllib3 :: "bool option \<Rightarrow> process \<Rightarrow> process" where
  "strip_urllib3 debug s =
     (if \<not> truthy debug
      then with_logger ''urllib3'' (\<lambda>l. l\<lparr>handlers := take 1 (handlers l)\<rparr>) s
      else s)"

text \<open>The body of the loop of lines 51 to 55, for one name.\<close>

definition silence :: "bool option \<Rightarrow> string \<Rightarrow> process \<Rightarrow> process" where
  "silence debug name s =
     (let s = with_logger name (\<lambda>l. l\<lparr>propagate := truthy debug\<rparr>) s
      in if \<not> truthy debug
         then (let (h, s) = new_handler NullHandler s
               in with_logger name (\<lambda>l. l\<lparr>handlers := [h]\<rparr>) s)
         else s)"

definition noisy :: "string list" where
  "noisy = [''urllib3'', ''asyncio'', ''kubernetes'']"

text \<open>Line 22: the level the flags ask for.\<close>

definition log_level :: "bool option \<Rightarrow> bool option \<Rightarrow> bool option \<Rightarrow> loglevel" where
  "log_level debug verbose quiet =
     (if truthy debug \<or> truthy verbose then DEBUG
      else if truthy quiet then WARNING else INFO)"

text \<open>Lines 24 to 29: a new stream handler with the formatter goes on the root logger.\<close>

definition configure_root :: "loglevel \<Rightarrow> process \<Rightarrow> process" where
  "configure_root lv s =
     (let (handler, s) = new_handler StreamHandler s;
          formatter = ObjectPrefixingFormatter format;
          handler = setFormatter formatter handler;
          s = s\<lparr>root := addHandler handler (root s)\<rparr>
      in s\<lparr>root := setLevel lv (root s)\<rparr>)"

definition configure ::
    "bool option \<Rightarrow> bool option \<Rightarrow> bool option \<Rightarrow> process \<Rightarrow> py_error option \<times> process" where
  "configure debug verbose quiet s =
     (let s = configure_root (log_level debug verbose quiet) s
      in (case configure_kubernetes debug s of
            (Some e, s) \<Rightarrow> (Some e, s)
          | (None, s) \<Rightarrow>
              let s = strip_urllib3 debug s;
                  s = fold (silence debug) noisy s
              in (None, s\<lparr>loop_debug := truthy debug\<rparr>)))"

text \<open>
  Every handler of the root logger was allocated by the process: its identity is below
  the next one to be given out.
\<close>

definition root_handlers_allocated :: "process \<Rightarrow> bool" where
  "root_handlers_allocated s = list_all (\<lambda>h. hid h < next_id s) (handlers (root s))"

text \<open>
  A process at start-up with the client library installed: no handlers anywhere, no
  named logger created yet.
\<close>

definition fresh_process :: process where
  "fresh_process =
     \<lparr>root = \<lparr>handlers = [], level = WARNING, propagate = True\<rparr>,
      loggerDict = Map.empty,
      next_id = 0,
      kubernetes = Some \<lparr>logger_format = ''%(asctime)s %(levelname)s %(message)s'',
                          logger_file = None, kube_debug = Some False\<rparr>,
      kubernetes_default = None,
      loop_debug = False\<rparr>"

text \<open>
  A process in which the HTTP client's logger already has its default null handler and
  a handler some library installed on top of it, and the root logger a stream handler
  from an earlier set-up.
\<close>

definition used_process :: process where
  "used_process =
     fresh_process
       \<lparr>root := \<lparr>handlers = [\<lparr>hid = 2, hclass = StreamHandler, hformatter = None\<rparr>],
                 level = WARNING, propagate = True\<rparr>,
        loggerDict :=
          [''urllib3'' \<mapsto>
             \<lparr>handlers = [\<lparr>hid = 0, hclass = NullHandler, hformatter = None\<rparr>,
                          \<lparr>hid = 1, hclass = ForeignHandler, hformatter = None\<rparr>],
              level = NOTSET, propagate = True\<rparr>],
        next_id := 3\<rparr>"

section \<open>Properties of the thread-pool limit\<close>

text \<open>
  Claim C1. For every \<open>new_limit \<ge> 1\<close> the call returns normally, the class attribute
  \<open>synchronous_tasks_threadpool_limit\<close> holds \<open>new_limit\<close> afterwards, and when a
  settings object is bound in the calling context, that same object (the binding is
  not changed, and no other object is written) has \<open>execution.max_workers\<close> equal to
  \<open>new_limit\<close>.
\<close>

theorem set_limit_accepts:
  assumes "1 \<le> new_limit"
  shows "\<exists>s'. set_synchronous_tasks_threadpool_limit new_limit s = (None, s') \<and>
           synchronous_tasks_threadpool_limit (workers s') = Some new_limit \<and>
           settings_var s' = settings_var s \<and>
           (\<forall>a. settings_var s = Some a \<longrightarrow>
                 max_workers (execution (store s' a)) = Some new_limit \<and>
                 (\<forall>b. b \<noteq> a \<longrightarrow> store s' b = store s b))"
  using assms
  by (cases "settings_var s")
     (simp_all add: set_synchronous_tasks_threadpool_limit_def settings_var_get_def
        set_max_workers_def)

theorem set_limit_accepts_witness:
  "(1::int) \<le> 8 \<and> settings_var running = Some 0 \<and>
   (\<exists>s'. set_synchronous_tasks_threadpool_limit 8 running = (None, s') \<and>
         synchronous_tasks_threadpool_limit (workers s') = Some 8 \<and>
         settings_var s' = Some 0 \<and>
         max_workers (execution (store s' 0)) = Some 8 \<and>
         store s' 1 = store running 1)"
  using set_limit_accepts [of 8 running]
  by (auto simp add: running_def)

text \<open>
  Claim C2. The call raises exactly when \<open>new_limit < 1\<close>; what it raises then is the
  \<open>ValueError\<close>, and the process is left as it was: the class attribute and every
  settings object keep their values.
\<close>

theorem set_limit_rejects:
  "(fst (set_synchronous_tasks_threadpool_limit new_limit s) \<noteq> None) = (new_limit < 1) \<and>
   (new_limit < 1 \<longrightarrow>
      set_synchronous_tasks_threadpool_limit new_limit s =
        (Some (ValueError ''Can`t set threadpool limit lower than 1''), s))"
  by (cases "settings_var s")
     (simp_all add: set_synchronous_tasks_threadpool_limit_def settings_var_get_def)

theorem set_limit_rejects_witness:
  "(0::int) < 1 \<and>
   fst (set_synchronous_tasks_threadpool_limit 0 running) \<noteq> None \<and>
   snd (set_synchronous_tasks_threadpool_limit 0 running) = running \<and>
   synchronous_tasks_threadpool_limit
     (workers (snd (set_synchronous_tasks_threadpool_limit 0 running))) = Some 4"
  using set_limit_rejects [of 0 running]
  by (simp add: running_def)

text \<open>
  Claim C3. For every \<open>new_limit \<ge> 1\<close>, when no settings object is bound the
  \<open>LookupError\<close> of the lookup does not leave the call: it returns normally, and the
  process differs from the one before only in the class attribute.
\<close>

theorem set_limit_unbound:
  assumes "1 \<le> new_limit" and "settings_var s = None"
  shows "settings_var_get s = Inl LookupError \<and>
         set_synchronous_tasks_threadpool_limit new_limit s =
           (None, s\<lparr>workers := (workers s)\<lparr>synchronous_tasks_threadpool_limit := Some new_limit\<rparr>\<rparr>)"
  using assms
  by (simp add: set_synchronous_tasks_threadpool_limit_def settings_var_get_def)

theorem set_limit_unbound_witness:
  "(1::int) \<le> 8 \<and> settings_var loading = None \<and>
   settings_var_get loading = Inl LookupError \<and>
   fst (set_synchronous_tasks_threadpool_limit 8 loading) = None \<and>
   synchronous_tasks_threadpool_limit
     (workers (snd (set_synchronous_tasks_threadpool_limit 8 loading))) = Some 8 \<and>
   store (snd (set_synchronous_tasks_threadpool_limit 8 loading)) = store loading \<and>
   settings_var (snd (set_synchronous_tasks_threadpool_limit 8 loading)) = None"
  using set_limit_unbound [of 8 loading]
  by (simp add: loading_def)

text \<open>
  Claim C6. Whatever the mutator writes is at least 1: if a call changes the class
  attribute, or the \<open>execution.max_workers\<close> of any settings object, the new value is
  a number \<open>\<ge> 1\<close>. The check sits in the mutator only: a direct assignment to the
  class attribute stores any value, checked or not.
\<close>

theorem limit_validated_at_mutator_only:
  "(case set_synchronous_tasks_threadpool_limit new_limit s of (r, s') \<Rightarrow>
      (synchronous_tasks_threadpool_limit (workers s')
         \<noteq> synchronous_tasks_threadpool_limit (workers s) \<longrightarrow>
         (\<exists>v. synchronous_tasks_threadpool_limit (workers s') = Some v \<and> 1 \<le> v)) \<and>
      (\<forall>a. max_workers (execution (store s' a)) \<noteq> max_workers (execution (store s a)) \<longrightarrow>
         (\<exists>v. max_workers (execution (store s' a)) = Some v \<and> 1 \<le> v))) \<and>
   synchronous_tasks_threadpool_limit
     (workers (assign_synchronous_tasks_threadpool_limit v s)) = v"
  by (cases "settings_var s")
     (simp_all add: set_synchronous_tasks_threadpool_limit_def settings_var_get_def
        set_max_workers_def assign_synchronous_tasks_threadpool_limit_def)

theorem limit_validated_at_mutator_only_witness:
  "synchronous_tasks_threadpool_limit
     (workers (snd (set_synchronous_tasks_threadpool_limit 8 running)))
     \<noteq> synchronous_tasks_threadpool_limit (workers running) \<and>
   max_workers (execution (store (snd (set_synchronous_tasks_threadpool_limit 8 running)) 0))
     \<noteq> max_workers (execution (store running 0)) \<and>
   (\<exists>v. synchronous_tasks_threadpool_limit
          (workers (snd (set_synchronous_tasks_threadpool_limit 8 running))) = Some v \<and>
        1 \<le> v) \<and>
   (\<exists>v. max_workers
          (execution (store (snd (set_synchronous_tasks_threadpool_limit 8 running)) 0)) = Some v \<and>
        1 \<le> v) \<and>
   synchronous_tasks_threadpool_limit
     (workers (assign_synchronous_tasks_threadpool_limit (Some 0) running)) = Some 0"
  using limit_validated_at_mutator_only [where new_limit = 8 and s = running and v = "Some 0"]
  by (simp add: running_def set_synchronous_tasks_threadpool_limit_def settings_var_get_def
        set_max_workers_def split: prod.splits)

text \<open>
  Claim C9. The values the class bodies give the attributes: the retry delay is 0.1,
  the idle timeout 5.0, the batch window 0.1, the exit timeout 2.0, and the two limits
  and the two watcher timeouts are \<open>None\<close>.
\<close>

theorem holder_defaults:
  "watcher_retry_delay WatchersConfig_class = 0.1 \<and>
   worker_idle_timeout WorkersConfig_class = 5.0 \<and>
   worker_batch_window WorkersConfig_class = 0.1 \<and>
   worker_exit_timeout WorkersConfig_class = 2.0 \<and>
   queue_workers_limit WorkersConfig_class = None \<and>
   synchronous_tasks_threadpool_limit WorkersConfig_class = None \<and>
   default_stream_timeout WatchersConfig_class = None \<and>
   session_timeout WatchersConfig_class = None"
  by (simp add: WorkersConfig_class_def WatchersConfig_class_def)

section \<open>Properties of the logging set-up\<close>

subsection \<open>What each block of \<open>configure\<close> touches\<close>

lemma configure_root_fields:
  "loggerDict (configure_root lv s) = loggerDict s"
  "next_id (configure_root lv s) = Suc (next_id s)"
  "kubernetes (configure_root lv s) = kubernetes s"
  "kubernetes_default (configure_root lv s) = kubernetes_default s"
  "level (root (configure_root lv s)) = lv"
  by (simp_all add: configure_root_def new_handler_def setLevel_def Let_def)

lemma configure_root_handlers:
  "handlers (root (configure_root lv s)) =
     handlers (addHandler \<lparr>hid = next_id s, hclass = StreamHandler,
                            hformatter = Some (ObjectPrefixingFormatter format)\<rparr> (root s))"
  by (simp add: configure_root_def new_handler_def setFormatter_def setLevel_def Let_def)


lemma configure_kubernetes_result:
  "configure_kubernetes debug s =
     (None, case kubernetes s of None \<Rightarrow> s
            | Some c \<Rightarrow> s\<lparr>kubernetes_default :=
                Some (c\<lparr>logger_format := format, logger_file := None, kube_debug := debug\<rparr>)\<rparr>)"
  by (simp add: configure_kubernetes_def import_kubernetes_def set_default_def Let_def
      split: option.splits)

lemma configure_kubernetes_fields:
  "root (snd (configure_kubernetes debug s)) = root s"
  "loggerDict (snd (configure_kubernetes debug s)) = loggerDict s"
  "next_id (snd (configure_kubernetes debug s)) = next_id s"
  by (simp_all add: configure_kubernetes_result split: option.splits)

lemma strip_urllib3_fields:
  "root (strip_urllib3 debug s) = root s"
  "next_id (strip_urllib3 debug s) = next_id s"
  "kubernetes_default (strip_urllib3 debug s) = kubernetes_default s"
  by (simp_all add: strip_urllib3_def with_logger_def)

lemma strip_urllib3_frame:
  assumes "loggerDict s = loggerDict t"
  shows "loggerDict (strip_urllib3 debug s) = loggerDict (strip_urllib3 debug t)"
  using assms by (simp add: strip_urllib3_def with_logger_def getLogger_def)

lemma silence_fields:
  "root (silence debug name s) = root s"
  "kubernetes_default (silence debug name s) = kubernetes_default s"
  by (simp_all add: silence_def with_logger_def new_handler_def Let_def)

lemma silence_next_id:
  "next_id (silence debug name s) = (if truthy debug then next_id s else Suc (next_id s))"
  by (simp add: silence_def with_logger_def new_handler_def Let_def)

lemma silence_frame:
  assumes "loggerDict s = loggerDict t" and "next_id s = next_id t"
  shows "loggerDict (silence debug name s) = loggerDict (silence debug name t)"
    and "next_id (silence debug name s) = next_id (silence debug name t)"
  using assms
  by (simp_all add: silence_def with_logger_def new_handler_def getLogger_def Let_def)

lemma fold_silence_fields:
  "root (fold (silence debug) names s) = root s"
  "kubernetes_default (fold (silence debug) names s) = kubernetes_default s"
  by (induction names arbitrary: s) (simp_all add: silence_fields)

lemma fold_silence_next_id:
  "next_id s \<le> next_id (fold (silence debug) names s)"
proof (induction names arbitrary: s)
  case Nil
  show ?case by simp
next
  case (Cons n ns)
  have "next_id s \<le> next_id (silence debug n s)"
    by (simp add: silence_next_id)
  also have "\<dots> \<le> next_id (fold (silence debug) ns (silence debug n s))"
    by (rule Cons.IH)
  finally show ?case by simp
qed

lemma fold_silence_frame:
  assumes "loggerDict s = loggerDict t" and "next_id s = next_id t"
  shows "loggerDict (fold (silence debug) names s) = loggerDict (fold (silence debug) names t) \<and>
         next_id (fold (silence debug) names s) = next_id (fold (silence debug) names t)"
  using assms
proof (induction names arbitrary: s t)
  case Nil
  then show ?case by simp
next
  case (Cons n ns)
  show ?case
    using Cons.IH [OF silence_frame [OF Cons.prems]] by simp
qed




subsection \<open>The whole of \<open>configure\<close>\<close>

lemma configure_result:
  "configure debug verbose quiet s =
     (None, (fold (silence debug) noisy (strip_urllib3 debug
        (snd (configure_kubernetes debug
          (configure_root (log_level debug verbose quiet) s)))))
        \<lparr>loop_debug := truthy debug\<rparr>)"
  by (simp add: configure_def configure_kubernetes_result Let_def split: option.splits)

lemma configure_returns:
  "configure debug verbose quiet s = (None, snd (configure debug verbose quiet s))"
  by (simp add: configure_result)

lemma configure_root_after:
  "root (snd (configure debug verbose quiet s)) =
     root (configure_root (log_level debug verbose quiet) s)"
  by (simp add: configure_result fold_silence_fields strip_urllib3_fields
      configure_kubernetes_fields)


lemma configure_loggers_frame:
  assumes "loggerDict s = loggerDict t" and "next_id s = next_id t"
    and that: "truthy debug = truthy debug'"
  shows "loggerDict (snd (configure debug verbose quiet s)) =
         loggerDict (snd (configure debug' verbose' quiet' t)) \<and>
         next_id (snd (configure debug verbose quiet s)) =
         next_id (snd (configure debug' verbose' quiet' t))"
proof -
  let ?a = "strip_urllib3 debug (snd (configure_kubernetes debug
              (configure_root (log_level debug verbose quiet) s)))"
  let ?b = "strip_urllib3 debug' (snd (configure_kubernetes debug'
              (configure_root (log_level debug' verbose' quiet') t)))"
  have l: "loggerDict ?a = loggerDict ?b"
    using assms that
    by (simp add: strip_urllib3_def with_logger_def getLogger_def
        configure_kubernetes_fields configure_root_fields)
  have n: "next_id ?a = next_id ?b"
    using assms
    by (simp add: strip_urllib3_fields configure_kubernetes_fields configure_root_fields)
  have s: "silence debug = silence debug'"
    using that by (simp add: fun_eq_iff silence_def)
  show ?thesis
    using fold_silence_frame [OF l n, of debug noisy] s
    by (simp add: configure_result)
qed


text \<open>
  Claim C4. For every combination of the flags \<open>configure\<close> returns normally and
  leaves the root logger at level \<open>DEBUG\<close> if \<open>debug\<close> or \<open>verbose\<close> is truthy,
  otherwise at \<open>WARNING\<close> if \<open>quiet\<close> is truthy, otherwise at \<open>INFO\<close>; so a
  truthy \<open>debug\<close> gives \<open>DEBUG\<close> whatever \<open>quiet\<close> is.
\<close>

theorem configure_root_level:
  "\<exists>s'. configure debug verbose quiet s = (None, s') \<and>
        level (root s') =
          (if truthy debug \<or> truthy verbose then DEBUG
           else if truthy quiet then WARNING else INFO)"
proof -
  have "level (root (snd (configure debug verbose quiet s))) = log_level debug verbose quiet"
    by (simp add: configure_root_after configure_root_fields)
  then show ?thesis
    using configure_returns [of debug verbose quiet s]
    by (auto simp add: log_level_def)
qed




lemma configure_appends:
  assumes "root_handlers_allocated s"
  shows "handlers (root (snd (configure debug verbose quiet s))) =
           handlers (root s) @ [\<lparr>hid = next_id s, hclass = StreamHandler,
                                  hformatter = Some (ObjectPrefixingFormatter format)\<rparr>]"
proof -
  have "\<lparr>hid = next_id s, hclass = StreamHandler,
          hformatter = Some (ObjectPrefixingFormatter format)\<rparr> \<notin> set (handlers (root s))"
    using assms by (auto simp add: root_handlers_allocated_def list_all_iff)
  then show ?thesis
    by (simp add: configure_root_after configure_root_handlers addHandler_def)
qed

lemma configure_next_id:
  "next_id s < next_id (snd (configure debug verbose quiet s))"
proof -
  let ?s3 = "strip_urllib3 debug (snd (configure_kubernetes debug
               (configure_root (log_level debug verbose quiet) s)))"
  have "next_id ?s3 = Suc (next_id s)"
    by (simp add: strip_urllib3_fields configure_kubernetes_fields configure_root_fields)
  then show ?thesis
    using fold_silence_next_id [of ?s3 debug noisy]
    by (simp add: configure_result)
qed

lemma configure_keeps_allocated:
  assumes "root_handlers_allocated s"
  shows "root_handlers_allocated (snd (configure debug verbose quiet s))"
  using assms configure_next_id [of s debug verbose quiet]
  by (auto simp add: root_handlers_allocated_def list_all_iff configure_appends [OF assms])

text \<open>
  Claim C8. In a process whose root handlers were all allocated by it, every call of
  \<open>configure\<close> appends one new stream handler to the root logger. Two calls in a row
  therefore leave two such handlers behind the ones that were there, distinct objects
  with the same formatter, and the second call does not leave the process as the first
  one left it: \<open>configure\<close> is not idempotent.
\<close>

theorem configure_not_idempotent:
  assumes "root_handlers_allocated s"
  shows "\<exists>s1 s2 h1 h2.
           configure debug verbose quiet s = (None, s1) \<and>
           configure debug' verbose' quiet' s1 = (None, s2) \<and>
           handlers (root s1) = handlers (root s) @ [h1] \<and>
           handlers (root s2) = handlers (root s) @ [h1, h2] \<and>
           h1 \<noteq> h2 \<and> hclass h1 = StreamHandler \<and> hclass h2 = StreamHandler \<and>
           hformatter h1 = Some (ObjectPrefixingFormatter format) \<and>
           hformatter h2 = hformatter h1 \<and>
           s2 \<noteq> s1"
proof -
  let ?s1 = "snd (configure debug verbose quiet s)"
  let ?s2 = "snd (configure debug' verbose' quiet' ?s1)"
  let ?h = "\<lambda>i. \<lparr>hid = i, hclass = StreamHandler,
                 hformatter = Some (ObjectPrefixingFormatter format)\<rparr>"
  have h1: "handlers (root ?s1) = handlers (root s) @ [?h (next_id s)]"
    by (rule configure_appends [OF assms])
  have "handlers (root ?s2) = handlers (root ?s1) @ [?h (next_id ?s1)]"
    by (rule configure_appends [OF configure_keeps_allocated [OF assms]])
  with h1 have h2: "handlers (root ?s2) = handlers (root s) @ [?h (next_id s), ?h (next_id ?s1)]"
    by simp
  have ne: "?h (next_id s) \<noteq> ?h (next_id ?s1)"
    using configure_next_id [of s debug verbose quiet] by simp
  have "handlers (root ?s2) \<noteq> handlers (root ?s1)"
    using h1 h2 by simp
  then have "?s2 \<noteq> ?s1"
    by auto
  with h1 h2 ne show ?thesis
    using configure_returns [of debug verbose quiet s]
      configure_returns [of debug' verbose' quiet' ?s1]
    by (intro exI [of _ ?s1] exI [of _ ?s2] exI [of _ "?h (next_id s)"]
        exI [of _ "?h (next_id ?s1)"]) simp
qed

theorem configure_not_idempotent_witness:
  "root_handlers_allocated used_process \<and>
   length (handlers (root used_process)) = 1 \<and>
   length (handlers (root (snd (configure None None None used_process)))) = 2 \<and>
   length (handlers (root (snd (configure None None None
      (snd (configure None None None used_process)))))) = 3 \<and>
   distinct (handlers (root (snd (configure None None None
      (snd (configure None None None used_process))))))"
  using configure_not_idempotent
    [where s = used_process and debug = None and verbose = None and quiet = None
       and debug' = None and verbose' = None and quiet' = None]
  by (auto simp add: root_handlers_allocated_def used_process_def fresh_process_def)

text \<open>
  Claim C10. \<open>configure()\<close> with the three flags left at \<open>None\<close> and
  \<open>configure(False, False, False)\<close> both return normally and leave the same root
  logger (level and handlers), the same named loggers (handlers and propagation) and
  the same event-loop debug flag.
\<close>

theorem configure_unset_as_false:
  "\<exists>s1 s2. configure None None None s = (None, s1) \<and>
     configure (Some False) (Some False) (Some False) s = (None, s2) \<and>
     root s1 = root s2 \<and> loggerDict s1 = loggerDict s2 \<and> loop_debug s1 = loop_debug s2"
proof -
  let ?s1 = "snd (configure None None None s)"
  let ?s2 = "snd (configure (Some False) (Some False) (Some False) s)"
  have r: "root ?s1 = root ?s2"
    by (simp add: configure_root_after log_level_def truthy_def)
  have l: "loggerDict ?s1 = loggerDict ?s2 \<and> next_id ?s1 = next_id ?s2"
    by (rule configure_loggers_frame) (simp_all add: truthy_def)
  have b: "loop_debug ?s1 = loop_debug ?s2"
    by (simp add: configure_result truthy_def)
  from r l b show ?thesis
    using configure_returns [of None None None s]
      configure_returns [of "Some False" "Some False" "Some False" s]
    by (intro exI [of _ ?s1] conjI exI [of _ ?s2]) simp_all
qed

end
